theory Spec2Isabelle
  imports Main
begin

section \<open>Python values\<close>

text \<open>
  A Python \<open>str\<close> is a sequence of Unicode code points, so it is modelled as a list of
  code points. The helper \<open>ascii\<close> turns an ASCII literal into such a list; the Cyrillic
  literals of \<open>homework.py\<close> are written out code point by code point.
\<close>

type_synonym pystr = "nat list"

definition ascii :: "string \<Rightarrow> pystr" where
  "ascii s = map of_char s"

text \<open>
  The values that \<open>response.json()\<close> can produce. IEEE doubles are kept abstract:
  the program only passes them around.
\<close>

typedecl pyfloat

datatype json =
    JNull
  | JBool bool
  | JInt int
  | JFloat pyfloat
  | JStr pystr
  | JList "json list"
  | JDict "(pystr \<times> json) list"

text \<open>\<open>str.join\<close>.\<close>

fun join :: "pystr \<Rightarrow> pystr list \<Rightarrow> pystr" where
  "join sep [] = []"
| "join sep [x] = x"
| "join sep (x # y # ys) = x @ sep @ join sep (y # ys)"

section \<open>Exceptions\<close>

text \<open>
  The exception classes that occur: the ones \<open>homework.py\<close> raises or names in an
  \<open>except\<close> clause, the subclasses that the \<open>requests\<close> and \<open>telegram\<close> libraries
  raise, and any other subclass of \<open>Exception\<close>. Exceptions outside \<open>Exception\<close>
  (\<open>KeyboardInterrupt\<close>, \<open>SystemExit\<close>) end the process and are not modelled.
\<close>

datatype exc_class =
    KeyError
  | TypeError
  | UnboundLocalError
  | NoHomeworkDetectedError
  | CantSendMessageError
  | RequestException
  | RequestExceptionSubclass pystr
  | TelegramError
  | TelegramErrorSubclass pystr
  | OtherException pystr

fun is_RequestException :: "exc_class \<Rightarrow> bool" where
  "is_RequestException RequestException = True"
| "is_RequestException (RequestExceptionSubclass n) = True"
| "is_RequestException c = False"

fun is_TelegramError :: "exc_class \<Rightarrow> bool" where
  "is_TelegramError TelegramError = True"
| "is_TelegramError (TelegramErrorSubclass n) = True"
| "is_TelegramError c = False"

text \<open>
  What an exception carries: the argument tuple it was constructed with, or, for an error
  that the interpreter itself raises, the operation that failed (the wording of those
  messages belongs to the interpreter).
\<close>

datatype exc_args =
    Args "json list"
  | Unbound pystr
  | BadSubscript json
  | Unhashable json

datatype raised = Raised exc_class exc_args

text \<open>
  The interpreter's \<open>str()\<close>: on a value that is not a \<open>str\<close>, and on an exception.
  The program is verified for every such pair of functions.
\<close>

record runtime =
  str_value :: "json \<Rightarrow> pystr"
  str_error :: "exc_class \<Rightarrow> exc_args \<Rightarrow> pystr"

text \<open>A replacement field \<open>{v}\<close> of an f-string: a \<open>str\<close> is inserted as it is.\<close>

definition format_value :: "runtime \<Rightarrow> json \<Rightarrow> pystr" where
  "format_value rt v = (case v of JStr s \<Rightarrow> s | _ \<Rightarrow> str_value rt v)"

section \<open>Constants of the module\<close>

definition RETRY_PERIOD :: nat where
  "RETRY_PERIOD = 600"

definition HOMEWORK_VERDICTS :: "(pystr \<times> pystr) list" where
  "HOMEWORK_VERDICTS =
    [(ascii ''approved'',
      [1056, 1072, 1073, 1086, 1090, 1072, 32, 1087, 1088, 1086, 1074, 1077, 1088, 1077,
       1085, 1072, 58, 32, 1088, 1077, 1074, 1100, 1102, 1077, 1088, 1091, 32, 1074, 1089,
       1105, 32, 1087, 1086, 1085, 1088, 1072, 1074, 1080, 1083, 1086, 1089, 1100, 46, 32,
       1059, 1088, 1072, 33]),
     (ascii ''reviewing'',
      [1056, 1072, 1073, 1086, 1090, 1072, 32, 1074, 1079, 1103, 1090, 1072, 32, 1085, 1072,
       32, 1087, 1088, 1086, 1074, 1077, 1088, 1082, 1091, 32, 1088, 1077, 1074, 1100, 1102,
       1077, 1088, 1086, 1084, 46]),
     (ascii ''rejected'',
      [1056, 1072, 1073, 1086, 1090, 1072, 32, 1087, 1088, 1086, 1074, 1077, 1088, 1077,
       1085, 1072, 58, 32, 1091, 32, 1088, 1077, 1074, 1100, 1102, 1077, 1088, 1072, 32,
       1077, 1089, 1090, 1100, 32, 1079, 1072, 1084, 1077, 1095, 1072, 1085, 1080, 1103,
       46])]"

text \<open>The Cyrillic literals, named by the place that uses them.\<close>

definition tokens_not_set_text :: pystr where
  "tokens_not_set_text =
    [1053, 1077, 32, 1079, 1072, 1076, 1072, 1085, 1099, 32, 1089, 1083, 1077, 1076, 1091,
     1102, 1097, 1080, 1077, 32, 1090, 1086, 1082, 1077, 1085, 1099, 32]"

definition cant_send_text :: pystr where
  "cant_send_text =
    [1053, 1077, 1074, 1086, 1079, 1084, 1086, 1078, 1085, 1086, 32, 1086, 1090, 1087, 1088,
     1072, 1074, 1080, 1090, 1100, 32, 1089, 1086, 1086, 1073, 1097, 1077, 1085, 1080, 1077,
     32, 1074, 32] @ ascii ''Telegram''"

definition bad_structure_text :: pystr where
  "bad_structure_text =
    [1057, 1090, 1088, 1091, 1082, 1090, 1091, 1088, 1072, 32, 1076, 1072, 1085, 1085, 1099,
     1093, 32, 1085, 1077, 32, 1089, 1086, 1086, 1090, 1074, 1077, 1090, 1089, 1090, 1074,
     1091, 1077, 1090, 32, 1086, 1078, 1080, 1076, 1072, 1085, 1080, 1103, 1084]"

definition no_homework_text :: pystr where
  "no_homework_text =
    [1044, 1086, 1084, 1072, 1096, 1085, 1077, 1081, 32, 1088, 1072, 1073, 1086, 1090, 1099,
     32, 1085, 1077, 1090]"

definition status_changed_text :: pystr where
  "status_changed_text =
    [1048, 1079, 1084, 1077, 1085, 1080, 1083, 1089, 1103, 32, 1089, 1090, 1072, 1090, 1091,
     1089, 32, 1087, 1088, 1086, 1074, 1077, 1088, 1082, 1080, 32, 1088, 1072, 1073, 1086,
     1090, 1099, 32, 34]"

definition no_status_text :: pystr where
  "no_status_text =
    [1057, 1090, 1072, 1090, 1091, 1089, 1072, 32, 37, 115, 32, 1085, 1077, 1090, 32, 1074,
     32, 1089, 1083, 1086, 1074, 1072, 1088, 1077]"

definition failure_text :: pystr where
  "failure_text =
    [1057, 1073, 1086, 1081, 32, 1074, 32, 1088, 1072, 1073, 1086, 1090, 1077, 32, 1087,
     1088, 1086, 1075, 1088, 1072, 1084, 1084, 1099, 58, 32]"

section \<open>check_tokens\<close>

text \<open>
  Lines 16 to 18 bind the three module globals to the results of \<open>os.getenv\<close>, which is
  \<open>None\<close> for a variable that is not set and its value (possibly the empty string)
  otherwise. The module namespace maps a bound name to its value.
\<close>

definition TOKEN_NAMES :: "pystr list" where
  "TOKEN_NAMES = [ascii ''PRACTICUM_TOKEN'', ascii ''TELEGRAM_TOKEN'', ascii ''TELEGRAM_CHAT_ID'']"

definition module_globals :: "(pystr \<Rightarrow> pystr option) \<Rightarrow> (pystr \<rightharpoonup> pystr option)" where
  "module_globals getenv =
     [ascii ''PRACTICUM_TOKEN'' \<mapsto> getenv (ascii ''PRACTICUM_TOKEN''),
      ascii ''TELEGRAM_TOKEN'' \<mapsto> getenv (ascii ''TELEGRAM_TOKEN''),
      ascii ''TELEGRAM_CHAT_ID'' \<mapsto> getenv (ascii ''TELEGRAM_CHAT_ID'')]"

definition missing_tokens :: "(pystr \<rightharpoonup> pystr option) \<Rightarrow> pystr list" where
  "missing_tokens globals =
     filter (\<lambda>token. globals token = None \<or> globals token = Some None) TOKEN_NAMES"

definition tokens_message :: "pystr list \<Rightarrow> pystr" where
  "tokens_message missing =
     tokens_not_set_text @ ascii ''- '' @ join (ascii '' '') missing @ ascii '',''"

definition check_tokens :: "(pystr \<rightharpoonup> pystr option) \<Rightarrow> raised + unit" where
  "check_tokens globals =
     (if missing_tokens globals \<noteq> []
      then Inl (Raised KeyError (Args [JStr (tokens_message (missing_tokens globals))]))
      else Inr ())"

section \<open>check_response\<close>

text \<open>
  \<open>all(key for key in ('current_date', 'homeworks'))\<close> tests the truth value of the two
  literals: a \<open>str\<close> is true when it is not empty. \<open>response.get('homeworks')\<close> is only
  evaluated on a \<open>dict\<close>, and is \<open>None\<close> for a missing key.
\<close>

definition truthy_str :: "pystr \<Rightarrow> bool" where
  "truthy_str s = (s \<noteq> [])"

fun isinstance_list :: "json option \<Rightarrow> bool" where
  "isinstance_list (Some (JList xs)) = True"
| "isinstance_list v = False"

fun check_response :: "json \<Rightarrow> raised + json list" where
  "check_response (JDict response) =
     (if list_all truthy_str [ascii ''current_date'', ascii ''homeworks'']
         \<and> isinstance_list (map_of response (ascii ''homeworks''))
      then (case map_of response (ascii ''homeworks'') of
              Some (JList homeworks) \<Rightarrow> Inr homeworks
            | _ \<Rightarrow> Inl (Raised TypeError (Args [JStr bad_structure_text])))
      else Inl (Raised TypeError (Args [JStr bad_structure_text])))"
| "check_response response = Inl (Raised TypeError (Args [JStr bad_structure_text]))"

section \<open>parse_status\<close>

text \<open>
  Subscripting: \<open>d[key]\<close> on a \<open>dict\<close> raises \<open>KeyError(key)\<close> for a missing key; on any
  other JSON value with a \<open>str\<close> key the interpreter raises \<open>TypeError\<close>.
\<close>

fun subscript :: "json \<Rightarrow> pystr \<Rightarrow> raised + json" where
  "subscript (JDict d) key =
     (case map_of d key of
        None \<Rightarrow> Inl (Raised KeyError (Args [JStr key]))
      | Some v \<Rightarrow> Inr v)"
| "subscript v key = Inl (Raised TypeError (BadSubscript v))"

text \<open>
  \<open>HOMEWORK_VERDICTS[status]\<close>: a \<open>list\<close> or a \<open>dict\<close> cannot be hashed (\<open>TypeError\<close>);
  every other value is looked up, and only a \<open>str\<close> can equal one of the keys.
\<close>

fun hashable :: "json \<Rightarrow> bool" where
  "hashable (JList xs) = False"
| "hashable (JDict d) = False"
| "hashable v = True"

definition verdict :: "json \<Rightarrow> raised + pystr" where
  "verdict status =
     (if \<not> hashable status then Inl (Raised TypeError (Unhashable status))
      else case status of
             JStr s \<Rightarrow>
               (case map_of HOMEWORK_VERDICTS s of
                  None \<Rightarrow> Inl (Raised KeyError (Args [status]))
                | Some v \<Rightarrow> Inr v)
           | _ \<Rightarrow> Inl (Raised KeyError (Args [status])))"

definition is_KeyError :: "raised \<Rightarrow> bool" where
  "is_KeyError e = (case e of Raised c a \<Rightarrow> c = KeyError)"

definition parse_status :: "runtime \<Rightarrow> json \<Rightarrow> raised + pystr" where
  "parse_status rt homework =
     (case (case subscript homework (ascii ''homework_name'') of
              Inl e \<Rightarrow> Inl e
            | Inr name \<Rightarrow>
                (case subscript homework (ascii ''status'') of
                   Inl e \<Rightarrow> Inl e
                 | Inr status \<Rightarrow> Inr (name, status))) of
        Inl e \<Rightarrow>
          (if is_KeyError e
           then Inl (Raised NoHomeworkDetectedError (Args [JStr no_homework_text]))
           else Inl e)
      | Inr (name, status) \<Rightarrow>
          (case verdict status of
             Inl e \<Rightarrow>
               (if is_KeyError e
                then Inl (Raised KeyError (Args [JStr no_status_text, status]))
                else Inl e)
           | Inr v \<Rightarrow>
               Inr (status_changed_text @ format_value rt name @ 34 # ascii ''. '' @ v)))"

section \<open>The outside world\<close>

text \<open>
  The HTTP client and the bot are black boxes. A response object is what the program
  reads of it: its status code, what \<open>raise_for_status()\<close> does (\<open>None\<close>: it returns)
  and what \<open>json()\<close> does. The environment answers the \<open>k\<close>-th call of \<open>requests.get\<close>
  (given the \<open>from_date\<close> parameter), the construction of the bot from the token, and
  the \<open>k\<close>-th call of \<open>bot.send_message\<close> (given the text).
\<close>

record http_response =
  status_code :: int
  raise_for_status :: "raised option"
  json_body :: "raised + json"

record environment =
  requests_get :: "nat \<Rightarrow> json \<Rightarrow> raised + http_response"
  telegram_Bot :: "pystr option \<Rightarrow> raised option"
  bot_send_message :: "nat \<Rightarrow> pystr \<Rightarrow> raised option"

text \<open>
  The variable \<open>error_message\<close> holds the empty \<open>str\<close> at first and an exception object
  after line 169. Exception classes do not define \<open>__eq__\<close>, so \<open>!=\<close> on an exception
  object compares identity; every \<open>raise\<close> of the program and of the libraries builds a
  new object, so the objects bound by \<open>except Exception as error\<close> are numbered in the
  order in which they are caught.
\<close>

datatype marker =
    Str pystr
  | ExcObject nat exc_class exc_args

fun ne_marker :: "nat \<Rightarrow> marker \<Rightarrow> bool" where
  "ne_marker n (Str s) = True"
| "ne_marker n (ExcObject k c a) = (n \<noteq> k)"

text \<open>
  The state of \<open>main\<close> (\<open>timestamp\<close>, \<open>error_message\<close>) and the trace of its effects:
  the texts passed to \<open>bot.send_message\<close>, the texts whose send returned, the number of
  calls of \<open>requests.get\<close>, the number of exceptions caught, the seconds slept.
\<close>

record machine =
  timestamp :: json
  error_message :: marker
  attempted :: "pystr list"
  sent :: "pystr list"
  requests :: nat
  caught :: nat
  slept :: nat

section \<open>send_message\<close>

definition send_message :: "environment \<Rightarrow> pystr \<Rightarrow> machine \<Rightarrow> raised option \<times> machine" where
  "send_message env text m =
     (let m' = m\<lparr>attempted := attempted m @ [text]\<rparr> in
      case bot_send_message env (length (attempted m)) text of
        None \<Rightarrow> (None, m'\<lparr>sent := sent m @ [text]\<rparr>)
      | Some (Raised c a) \<Rightarrow>
          (if is_TelegramError c
           then (Some (Raised CantSendMessageError (Args [JStr cant_send_text])), m')
           else (Some (Raised c a), m')))"

section \<open>get_api_answer\<close>

text \<open>
  When \<open>requests.get\<close> raises a \<open>RequestException\<close>, the handler evaluates
  \<open>response.status_code\<close> to build the new exception; \<open>response\<close> is a local variable
  that the failed assignment never bound.
\<close>

definition get_api_answer :: "environment \<Rightarrow> nat \<Rightarrow> json \<Rightarrow> raised + json" where
  "get_api_answer env k from_date =
     (case requests_get env k from_date of
        Inl (Raised c a) \<Rightarrow>
          (if is_RequestException c
           then Inl (Raised UnboundLocalError (Unbound (ascii ''response'')))
           else Inl (Raised c a))
      | Inr response \<Rightarrow>
          (if status_code response \<noteq> 200
           then (case raise_for_status response of
                   Some e \<Rightarrow> Inl e
                 | None \<Rightarrow> json_body response)
           else json_body response))"

section \<open>main\<close>

text \<open>The body of the \<open>try\<close> block, lines 157 to 164.\<close>

definition notify_first :: "runtime \<Rightarrow> environment \<Rightarrow> json list \<Rightarrow> machine \<Rightarrow> raised option \<times> machine" where
  "notify_first rt env homeworks m =
     (case homeworks of
        [] \<Rightarrow> (None, m)
      | homework # others \<Rightarrow>
          (case parse_status rt homework of
             Inl e \<Rightarrow> (Some e, m)
           | Inr text \<Rightarrow> send_message env text m))"

definition try_body :: "runtime \<Rightarrow> environment \<Rightarrow> machine \<Rightarrow> raised option \<times> machine" where
  "try_body rt env m =
     (let m1 = m\<lparr>requests := Suc (requests m)\<rparr> in
      case get_api_answer env (requests m) (timestamp m) of
        Inl e \<Rightarrow> (Some e, m1)
      | Inr response \<Rightarrow>
          (case check_response response of
             Inl e \<Rightarrow> (Some e, m1)
           | Inr homeworks \<Rightarrow>
               (case notify_first rt env homeworks m1 of
                  (Some e, m2) \<Rightarrow> (Some e, m2)
                | (None, m2) \<Rightarrow>
                    (case subscript response (ascii ''current_date'') of
                       Inl e \<Rightarrow> (Some e, m2)
                     | Inr v \<Rightarrow> (None, m2\<lparr>timestamp := v\<rparr>)))))"

text \<open>The \<open>except Exception as error\<close> block, lines 165 to 169.\<close>

fun handler :: "runtime \<Rightarrow> environment \<Rightarrow> raised \<Rightarrow> machine \<Rightarrow> raised option \<times> machine" where
  "handler rt env (Raised c a) m =
     (let error = caught m; m1 = m\<lparr>caught := Suc (caught m)\<rparr> in
      if ne_marker error (error_message m1)
      then (case send_message env (failure_text @ str_error rt c a) m1 of
              (Some e, m2) \<Rightarrow> (Some e, m2)
            | (None, m2) \<Rightarrow> (None, m2\<lparr>error_message := ExcObject error c a\<rparr>))
      else (None, m1))"

text \<open>The \<open>finally\<close> block, lines 170 to 172.\<close>

definition sleep :: "machine \<Rightarrow> machine" where
  "sleep m = m\<lparr>slept := slept m + RETRY_PERIOD\<rparr>"

text \<open>
  One pass through the \<open>while\<close> loop. An exception that leaves the handler runs the
  \<open>finally\<close> block and then leaves the loop.
\<close>

datatype flow = Continue | Crashed raised

definition iteration :: "runtime \<Rightarrow> environment \<Rightarrow> machine \<Rightarrow> flow \<times> machine" where
  "iteration rt env m =
     (case try_body rt env m of
        (None, m') \<Rightarrow> (Continue, sleep m')
      | (Some e, m') \<Rightarrow>
          (case handler rt env e m' of
             (None, m'') \<Rightarrow> (Continue, sleep m'')
           | (Some e', m'') \<Rightarrow> (Crashed e', sleep m'')))"

text \<open>
  The loop never ends by itself, so it is run for a given number of passes; it stops
  earlier when an exception leaves it.
\<close>

fun poll_loop :: "runtime \<Rightarrow> environment \<Rightarrow> nat \<Rightarrow> machine \<Rightarrow> flow \<times> machine" where
  "poll_loop rt env 0 m = (Continue, m)"
| "poll_loop rt env (Suc n) m =
     (case iteration rt env m of
        (Continue, m') \<Rightarrow> poll_loop rt env n m'
      | (Crashed e, m') \<Rightarrow> (Crashed e, m'))"

definition initial :: "int \<Rightarrow> machine" where
  "initial now =
     \<lparr>timestamp = JInt now, error_message = Str [], attempted = [], sent = [],
      requests = 0, caught = 0, slept = 0\<rparr>"

text \<open>
  \<open>main\<close>, for the first \<open>n\<close> passes of its loop: \<open>Inl\<close> when an exception ends the process
  before the loop starts.
\<close>

definition main :: "runtime \<Rightarrow> environment \<Rightarrow> (pystr \<Rightarrow> pystr option) \<Rightarrow> int \<Rightarrow> nat \<Rightarrow> raised + flow \<times> machine" where
  "main rt env getenv now n =
     (case check_tokens (module_globals getenv) of
        Inl e \<Rightarrow> Inl e
      | Inr u \<Rightarrow>
          (case telegram_Bot env (getenv (ascii ''TELEGRAM_TOKEN'')) of
             Some e \<Rightarrow> Inl e
           | None \<Rightarrow> Inr (poll_loop rt env n (initial now))))"

section \<open>Reachable states and example inputs\<close>

text \<open>
  An exception object stored in \<open>error_message\<close> was caught earlier than any exception
  that will be caught from now on.
\<close>

fun older :: "marker \<Rightarrow> nat \<Rightarrow> bool" where
  "older (Str s) n = True"
| "older (ExcObject k c a) n = (k < n)"

definition marker_fresh :: "machine \<Rightarrow> bool" where
  "marker_fresh m = older (error_message m) (caught m)"

text \<open>
  The description that \<open>error_message\<close> records: \<open>str()\<close> of the value it holds.
\<close>

fun marker_description :: "runtime \<Rightarrow> marker \<Rightarrow> pystr" where
  "marker_description rt (Str s) = s"
| "marker_description rt (ExcObject k c a) = str_error rt c a"

text \<open>Concrete inputs on which the theorems below are evaluated.\<close>

definition example_runtime :: runtime where
  "example_runtime = \<lparr>str_value = (\<lambda>v. []), str_error = (\<lambda>c a. [])\<rparr>"

text \<open>
  A runtime in which the description of an exception built from one \<open>str\<close> is that
  \<open>str\<close>, as it is for \<open>TypeError\<close>.
\<close>

definition describing_runtime :: runtime where
  "describing_runtime =
     \<lparr>str_value = (\<lambda>v. []),
      str_error = (\<lambda>c a. case a of Args [JStr s] \<Rightarrow> s | _ \<Rightarrow> ascii ''error'')\<rparr>"

definition ok_response :: "json \<Rightarrow> raised + http_response" where
  "ok_response body = Inr \<lparr>status_code = 200, raise_for_status = None, json_body = Inr body\<rparr>"

definition example_environment :: "raised + http_response \<Rightarrow> raised option \<Rightarrow> environment" where
  "example_environment answer outcome =
     \<lparr>requests_get = (\<lambda>k from_date. answer),
      telegram_Bot = (\<lambda>token. None),
      bot_send_message = (\<lambda>k text. outcome)\<rparr>"

definition empty_secrets :: "pystr \<Rightarrow> pystr option" where
  "empty_secrets name = Some []"

definition no_bot_token :: "pystr \<Rightarrow> pystr option" where
  "no_bot_token name = (if name = ascii ''TELEGRAM_TOKEN'' then None else Some (ascii ''x''))"

definition hw1 :: json where
  "hw1 = JDict [(ascii ''homework_name'', JStr (ascii ''hw1'')), (ascii ''status'', JStr (ascii ''approved''))]"

definition hw2 :: json where
  "hw2 = JDict [(ascii ''homework_name'', JStr (ascii ''hw2'')), (ascii ''status'', JStr (ascii ''rejected''))]"

section \<open>Frame lemmas\<close>

lemmas run_defs = example_environment_def ok_response_def iteration_def try_body_def
  get_api_answer_def sleep_def initial_def send_message_def notify_first_def Let_def
  RETRY_PERIOD_def truthy_str_def

lemma send_message_keeps:
  "timestamp (snd (send_message env text m)) = timestamp m"
  "error_message (snd (send_message env text m)) = error_message m"
  "caught (snd (send_message env text m)) = caught m"
  "attempted (snd (send_message env text m)) = attempted m @ [text]"
  by (auto simp: send_message_def Let_def split: option.splits raised.splits)

lemma notify_first_keeps:
  "timestamp (snd (notify_first rt env homeworks m)) = timestamp m"
  "error_message (snd (notify_first rt env homeworks m)) = error_message m"
  "caught (snd (notify_first rt env homeworks m)) = caught m"
  by (auto simp: notify_first_def send_message_keeps split: list.splits sum.splits)

lemma notify_first_attempted:
  "attempted (snd (notify_first rt env (homework # others) m)) =
     attempted m @ (case parse_status rt homework of Inl e \<Rightarrow> [] | Inr text \<Rightarrow> [text])"
  by (auto simp: notify_first_def send_message_keeps split: sum.splits)

lemma try_body_keeps:
  "error_message (snd (try_body rt env m)) = error_message m"
  "caught (snd (try_body rt env m)) = caught m"
proof -
  have *: "error_message (snd (notify_first rt env hs (m\<lparr>requests := Suc (requests m)\<rparr>))) = error_message m"
          "caught (snd (notify_first rt env hs (m\<lparr>requests := Suc (requests m)\<rparr>))) = caught m" for hs
    by (simp_all add: notify_first_keeps)
  show "error_message (snd (try_body rt env m)) = error_message m"
    using * by (auto simp: try_body_def Let_def split: sum.splits prod.splits option.splits) (metis snd_conv)+
  show "caught (snd (try_body rt env m)) = caught m"
    using * by (auto simp: try_body_def Let_def split: sum.splits prod.splits option.splits) (metis snd_conv)+
qed

lemma try_body_raises_timestamp:
  assumes "try_body rt env m = (Some e, m')"
  shows "timestamp m' = timestamp m"
proof -
  have *: "timestamp (snd (notify_first rt env hs (m\<lparr>requests := Suc (requests m)\<rparr>))) = timestamp m" for hs
    by (simp add: notify_first_keeps)
  show ?thesis
    using assms * by (auto simp: try_body_def Let_def split: sum.splits prod.splits option.splits) (metis snd_conv)+
qed

lemma handler_timestamp:
  "timestamp (snd (handler rt env e m)) = timestamp m"
proof (cases e)
  case (Raised c a)
  have *: "timestamp (snd (send_message env t (m\<lparr>caught := Suc (caught m)\<rparr>))) = timestamp m" for t
    by (simp add: send_message_keeps)
  show ?thesis
    using * Raised by (auto simp: Let_def split: prod.splits option.splits) (metis snd_conv)+
qed

text \<open>The handler, with \<open>send_message\<close> unfolded.\<close>

lemma handler_cases:
  "handler rt env (Raised c a) m =
     (if ne_marker (caught m) (error_message m)
      then (case bot_send_message env (length (attempted m)) (failure_text @ str_error rt c a) of
              None \<Rightarrow> (None, m\<lparr>caught := Suc (caught m),
                                attempted := attempted m @ [failure_text @ str_error rt c a],
                                sent := sent m @ [failure_text @ str_error rt c a],
                                error_message := ExcObject (caught m) c a\<rparr>)
            | Some (Raised c' a') \<Rightarrow>
                (Some (if is_TelegramError c' then Raised CantSendMessageError (Args [JStr cant_send_text])
                       else Raised c' a'),
                 m\<lparr>caught := Suc (caught m),
                   attempted := attempted m @ [failure_text @ str_error rt c a]\<rparr>))
      else (None, m\<lparr>caught := Suc (caught m)\<rparr>))"
  by (auto simp: send_message_def Let_def split: option.splits raised.splits)

text \<open>The \<open>try\<close> block once the answer has been fetched and has passed \<open>check_response\<close>.\<close>

lemma try_body_fetched:
  assumes "get_api_answer env (requests m) (timestamp m) = Inr response"
      and "check_response response = Inr homeworks"
  shows "try_body rt env m =
           (case notify_first rt env homeworks (m\<lparr>requests := Suc (requests m)\<rparr>) of
              (Some e, m2) \<Rightarrow> (Some e, m2)
            | (None, m2) \<Rightarrow>
                (case subscript response (ascii ''current_date'') of
                   Inl e \<Rightarrow> (Some e, m2)
                 | Inr v \<Rightarrow> (None, m2\<lparr>timestamp := v\<rparr>)))"
  using assms by (simp add: try_body_def Let_def)

text \<open>The program reaches the bot only through \<open>bot.send_message\<close>.\<close>

lemma send_message_bot:
  "bot_send_message env' = bot_send_message env \<Longrightarrow> send_message env' = send_message env"
  by (intro ext) (simp add: send_message_def)

lemma notify_first_head:
  assumes "bot_send_message env' = bot_send_message env"
  shows "notify_first rt env' (homework # others') m = notify_first rt env (homework # others) m"
  unfolding notify_first_def send_message_bot [OF assms] by simp

lemma handler_bot:
  assumes "bot_send_message env' = bot_send_message env"
  shows "handler rt env' e m = handler rt env e m"
proof (cases e)
  case (Raised c a)
  show ?thesis
    unfolding Raised handler.simps send_message_bot [OF assms] ..
qed

section \<open>The comparison in the handler never suppresses\<close>

lemma older_Suc: "older x n \<Longrightarrow> older x (Suc n)"
  by (cases x) auto

lemma marker_fresh_ne: "marker_fresh m \<Longrightarrow> ne_marker (caught m) (error_message m)"
  by (cases "error_message m") (auto simp: marker_fresh_def)

lemma marker_fresh_initial: "marker_fresh (initial now)"
  by (simp add: marker_fresh_def initial_def)

lemma marker_fresh_iteration:
  assumes "marker_fresh m"
  shows "marker_fresh (snd (iteration rt env m))"
proof (cases "try_body rt env m")
  case (Pair r m')
  have fresh': "marker_fresh m'"
    using assms try_body_keeps [of rt env m] Pair by (simp add: marker_fresh_def)
  show ?thesis
  proof (cases r)
    case None
    then show ?thesis using Pair fresh' by (simp add: iteration_def sleep_def marker_fresh_def)
  next
    case (Some e)
    obtain c a where e: "e = Raised c a" by (cases e)
    show ?thesis
      using Pair Some e fresh'
      by (auto simp: iteration_def handler_cases sleep_def marker_fresh_def older_Suc
               simp del: handler.simps split: option.splits raised.splits)
  qed
qed

lemma marker_fresh_poll_loop:
  "marker_fresh m \<Longrightarrow> marker_fresh (snd (poll_loop rt env n m))"
proof (induction n arbitrary: m)
  case 0
  then show ?case by simp
next
  case (Suc n)
  have "marker_fresh (snd (iteration rt env m))"
    using Suc.prems by (rule marker_fresh_iteration)
  then show ?case
    using Suc.IH by (cases "iteration rt env m") (auto split: flow.splits)
qed

text \<open>
  In every state that \<open>main\<close> reaches, an error caught in a pass is passed to
  \<open>bot.send_message\<close>, whatever \<open>error_message\<close> holds.
\<close>

lemma every_error_notified:
  assumes "marker_fresh m" and "try_body rt env m = (Some (Raised c a), m')"
  shows "attempted (snd (iteration rt env m)) = attempted m' @ [failure_text @ str_error rt c a]"
proof -
  have "marker_fresh m'"
    using assms try_body_keeps [of rt env m] by (simp add: marker_fresh_def)
  then have "ne_marker (caught m') (error_message m')"
    by (rule marker_fresh_ne)
  then show ?thesis
    using assms(2)
    by (auto simp: iteration_def handler_cases sleep_def simp del: handler.simps
             split: option.splits raised.splits)
qed

lemma suppression_never_applies:
  assumes "try_body rt env (snd (poll_loop rt env n (initial now))) = (Some (Raised c a), m')"
  shows "attempted (snd (iteration rt env (snd (poll_loop rt env n (initial now)))))
           = attempted m' @ [failure_text @ str_error rt c a]"
  using marker_fresh_poll_loop [OF marker_fresh_initial] assms
  by (rule every_error_notified)

section \<open>Suppression of repeated errors\<close>

text \<open>
  Claim C1 says that an error whose description equals the one recorded on the preceding
  pass is not notified again. The code compares the exception object with
  \<open>error_message\<close> (line 166), not its description, and two passes never catch the same
  object. Here the API answers the JSON array \<open>[]\<close> on two consecutive passes:
  \<open>check_response\<close> raises \<open>TypeError\<close> with the same argument both times, and the same
  failure text is sent twice.
\<close>

theorem repeated_error_notified_twice:
  "sent (snd (poll_loop rt (example_environment (ok_response (JList [])) None) (Suc (Suc 0)) (initial now)))
     = [failure_text @ str_error rt TypeError (Args [JStr bad_structure_text]),
        failure_text @ str_error rt TypeError (Args [JStr bad_structure_text])]"
  by (simp add: run_defs)

section \<open>The configuration check\<close>

lemma missing_tokens_module:
  "missing_tokens (module_globals getenv) = filter (\<lambda>token. getenv token = None) TOKEN_NAMES"
  by (simp add: missing_tokens_def module_globals_def TOKEN_NAMES_def ascii_def)

text \<open>
  Claim C2, as the code has it: \<open>check_tokens\<close> fails exactly when one of the three
  variables is not set, with a \<open>KeyError\<close> whose message lists the variables that are
  not set, in the order of line 45, and then \<open>main\<close> ends with that error before the bot
  is built and before the loop; when all three are set it returns, whatever their
  values are.
\<close>

theorem check_tokens_names_absent:
  "check_tokens (module_globals getenv) =
     (if filter (\<lambda>token. getenv token = None) TOKEN_NAMES = [] then Inr ()
      else Inl (Raised KeyError
                 (Args [JStr (tokens_message (filter (\<lambda>token. getenv token = None) TOKEN_NAMES))])))
   \<and> (filter (\<lambda>token. getenv token = None) TOKEN_NAMES \<noteq> [] \<longrightarrow>
        main rt env getenv now n =
          Inl (Raised KeyError
                (Args [JStr (tokens_message (filter (\<lambda>token. getenv token = None) TOKEN_NAMES))])))"
  by (simp add: check_tokens_def main_def missing_tokens_module)

text \<open>With only \<open>TELEGRAM_TOKEN\<close> not set, the message names \<open>TELEGRAM_TOKEN\<close> alone.\<close>

theorem check_tokens_names_absent_witness:
  "filter (\<lambda>token. no_bot_token token = None) TOKEN_NAMES \<noteq> []
   \<and> check_tokens (module_globals no_bot_token) =
       Inl (Raised KeyError (Args [JStr (tokens_message [ascii ''TELEGRAM_TOKEN''])]))
   \<and> main example_runtime (example_environment (ok_response JNull) None) no_bot_token 0 1 =
       Inl (Raised KeyError (Args [JStr (tokens_message [ascii ''TELEGRAM_TOKEN''])]))"
  using check_tokens_names_absent
    [of no_bot_token example_runtime "example_environment (ok_response JNull) None" 0 1]
  by (simp add: no_bot_token_def TOKEN_NAMES_def ascii_def)

text \<open>
  The claim as written also rejects a secret that is the empty string. The check
  accepts three empty strings.
\<close>

theorem check_tokens_accepts_empty:
  "check_tokens (module_globals empty_secrets) = Inr ()"
  by (simp add: check_tokens_def missing_tokens_module empty_secrets_def TOKEN_NAMES_def)

section \<open>The last-error marker\<close>

text \<open>
  Claim C3, as the code has it. In a state that \<open>main\<close> has reached, a pass catches an
  error whose description differs from the one that the last-error marker records. If
  the send of the failure notification succeeds, the loop goes on and the marker records
  that error's description. If that send itself fails, line 169 is not reached: the
  marker keeps the value it had before the pass, and the exception leaves the loop.
\<close>

theorem marker_updated_after_send:
  assumes "poll_loop rt env n (initial now) = (Continue, m)"
      and "try_body rt env m = (Some (Raised c a), m')"
      and "str_error rt c a \<noteq> marker_description rt (error_message m)"
  shows "(bot_send_message env (length (attempted m')) (failure_text @ str_error rt c a) = None \<longrightarrow>
            fst (iteration rt env m) = Continue \<and>
            marker_description rt (error_message (snd (iteration rt env m))) = str_error rt c a)
       \<and> (bot_send_message env (length (attempted m')) (failure_text @ str_error rt c a) \<noteq> None \<longrightarrow>
            (\<exists>e. fst (iteration rt env m) = Crashed e) \<and>
            error_message (snd (iteration rt env m)) = error_message m)"
proof -
  have "marker_fresh (snd (poll_loop rt env n (initial now)))"
    using marker_fresh_initial by (rule marker_fresh_poll_loop)
  then have "marker_fresh m"
    using assms(1) by simp
  then have "marker_fresh m'"
    using assms(2) try_body_keeps [of rt env m] by (simp add: marker_fresh_def)
  then have ne: "ne_marker (caught m') (error_message m')"
    by (rule marker_fresh_ne)
  have same: "error_message m' = error_message m"
    using try_body_keeps(1) [of rt env m] assms(2) by simp
  show ?thesis
    using assms(2) ne same
    by (auto simp: iteration_def handler_cases sleep_def simp del: handler.simps
             split: option.splits raised.splits)
qed

text \<open>
  The first pass on the answer \<open>[]\<close>: the description of the \<open>TypeError\<close> is not the
  empty string that the marker holds. With a bot that delivers, the marker then records
  that description; with a bot that raises \<open>TelegramError\<close>, the marker is unchanged.
\<close>

theorem marker_updated_after_send_witness:
  "poll_loop describing_runtime (example_environment (ok_response (JList [])) None) 0 (initial 0)
     = (Continue, initial 0)
   \<and> try_body describing_runtime (example_environment (ok_response (JList [])) None) (initial 0)
     = (Some (Raised TypeError (Args [JStr bad_structure_text])), (initial 0)\<lparr>requests := 1\<rparr>)
   \<and> str_error describing_runtime TypeError (Args [JStr bad_structure_text])
     \<noteq> marker_description describing_runtime (error_message (initial 0))
   \<and> fst (iteration describing_runtime (example_environment (ok_response (JList [])) None) (initial 0))
     = Continue
   \<and> marker_description describing_runtime
       (error_message (snd (iteration describing_runtime
          (example_environment (ok_response (JList [])) None) (initial 0))))
     = bad_structure_text
   \<and> error_message (snd (iteration describing_runtime
        (example_environment (ok_response (JList [])) (Some (Raised TelegramError (Args [])))) (initial 0)))
     = Str []"
proof -
  let ?ok = "example_environment (ok_response (JList [])) None"
  let ?bad = "example_environment (ok_response (JList [])) (Some (Raised TelegramError (Args [])))"
  have start: "poll_loop describing_runtime env 0 (initial 0) = (Continue, initial 0)" for env
    by simp
  have body: "try_body describing_runtime (example_environment (ok_response (JList [])) outcome) (initial 0)
     = (Some (Raised TypeError (Args [JStr bad_structure_text])), (initial 0)\<lparr>requests := 1\<rparr>)" for outcome
    by (simp add: run_defs)
  have differs: "str_error describing_runtime TypeError (Args [JStr bad_structure_text])
     \<noteq> marker_description describing_runtime (error_message (initial 0))"
    by (simp add: describing_runtime_def initial_def bad_structure_text_def)
  have delivered: "bot_send_message ?ok k msg = None" for k msg
    by (simp add: example_environment_def)
  have refused: "bot_send_message ?bad k msg \<noteq> None" for k msg
    by (simp add: example_environment_def)
  show ?thesis
    using start body differs
      marker_updated_after_send [OF start [of ?ok] body [of None] differs]
      marker_updated_after_send [OF start [of ?bad] body [of "Some (Raised TelegramError (Args []))"] differs]
      delivered refused
    by (simp add: describing_runtime_def initial_def)
qed

text \<open>
  The claim as written has the marker updated also when the send of the failure
  notification fails. On the first pass, with the answer \<open>[]\<close> and a bot that raises
  \<open>TelegramError\<close>, the error's description is the text of line 126 and differs from
  the empty string in the marker; the pass ends with \<open>CantSendMessageError\<close> and the
  marker is still the empty string.
\<close>

theorem marker_kept_when_send_fails:
  "str_error describing_runtime TypeError (Args [JStr bad_structure_text]) = bad_structure_text
   \<and> bad_structure_text \<noteq> marker_description describing_runtime (error_message (initial 0))
   \<and> iteration describing_runtime
       (example_environment (ok_response (JList [])) (Some (Raised TelegramError (Args [])))) (initial 0)
     = (Crashed (Raised CantSendMessageError (Args [JStr cant_send_text])),
        \<lparr>timestamp = JInt 0, error_message = Str [],
         attempted = [failure_text @ bad_structure_text], sent = [],
         requests = 1, caught = 1, slept = 600\<rparr>)
   \<and> marker_description describing_runtime (Str []) \<noteq> bad_structure_text"
proof -
  have nonempty: "bad_structure_text \<noteq> []"
    by (simp add: bad_structure_text_def)
  show ?thesis
    using nonempty by (simp add: run_defs describing_runtime_def)
qed

section \<open>The response validator\<close>

text \<open>What \<open>check_response\<close> accepts: a \<open>dict\<close> with a \<open>list\<close> under \<open>homeworks\<close>.\<close>

lemma check_response_iff:
  "check_response r = Inr hs \<longleftrightarrow> (\<exists>d. r = JDict d \<and> map_of d (ascii ''homeworks'') = Some (JList hs))"
  by (cases r) (auto simp: truthy_str_def ascii_def split: option.splits json.splits)

text \<open>
  Claim C4 says that a mapping without the \<open>current_date\<close> key is rejected. The test of
  line 121 looks at the two key names, not at the response: the mapping
  \<open>{"homeworks": []}\<close> is accepted and its empty list returned.
\<close>

theorem check_response_ignores_current_date:
  "check_response (JDict [(ascii ''homeworks'', JList [])]) = Inr []"
  by (simp add: truthy_str_def ascii_def)

section \<open>The status translator\<close>

text \<open>
  Claim C5: for a record with a name and with a status that is a key of
  \<open>HOMEWORK_VERDICTS\<close>, \<open>parse_status\<close> returns the opening words, the name, a quote, a
  full stop, a space and the verdict of that status; for the record with the name
  \<open>hw1\<close> and the status \<open>approved\<close> this is the sentence of the specification, given
  here code point by code point.
\<close>

theorem parse_status_verdict:
  "(map_of d (ascii ''homework_name'') = Some name \<longrightarrow>
    map_of d (ascii ''status'') = Some (JStr s) \<longrightarrow>
    map_of HOMEWORK_VERDICTS s = Some v \<longrightarrow>
    parse_status rt (JDict d) = Inr (status_changed_text @ format_value rt name @ 34 # ascii ''. '' @ v))
   \<and> parse_status rt
       (JDict [(ascii ''homework_name'', JStr (ascii ''hw1'')), (ascii ''status'', JStr (ascii ''approved''))])
     = Inr 
       [1048, 1079, 1084, 1077, 1085, 1080, 1083, 1089, 1103, 32, 1089, 1090, 1072, 1090,
        1091, 1089, 32, 1087, 1088, 1086, 1074, 1077, 1088, 1082, 1080, 32, 1088, 1072,
        1073, 1086, 1090, 1099, 32, 34, 104, 119, 49, 34, 46, 32, 1056, 1072, 1073, 1086,
        1090, 1072, 32, 1087, 1088, 1086, 1074, 1077, 1088, 1077, 1085, 1072, 58, 32, 1088,
        1077, 1074, 1100, 1102, 1077, 1088, 1091, 32, 1074, 1089, 1105, 32, 1087, 1086,
        1085, 1088, 1072, 1074, 1080, 1083, 1086, 1089, 1100, 46, 32, 1059, 1088, 1072, 33]"
proof
  show "map_of d (ascii ''homework_name'') = Some name \<longrightarrow>
    map_of d (ascii ''status'') = Some (JStr s) \<longrightarrow>
    map_of HOMEWORK_VERDICTS s = Some v \<longrightarrow>
    parse_status rt (JDict d) = Inr (status_changed_text @ format_value rt name @ 34 # ascii ''. '' @ v)"
    by (simp add: parse_status_def verdict_def)
next
  show "parse_status rt
       (JDict [(ascii ''homework_name'', JStr (ascii ''hw1'')), (ascii ''status'', JStr (ascii ''approved''))])
     = Inr 
       [1048, 1079, 1084, 1077, 1085, 1080, 1083, 1089, 1103, 32, 1089, 1090, 1072, 1090,
        1091, 1089, 32, 1087, 1088, 1086, 1074, 1077, 1088, 1082, 1080, 32, 1088, 1072,
        1073, 1086, 1090, 1099, 32, 34, 104, 119, 49, 34, 46, 32, 1056, 1072, 1073, 1086,
        1090, 1072, 32, 1087, 1088, 1086, 1074, 1077, 1088, 1077, 1085, 1072, 58, 32, 1088,
        1077, 1074, 1100, 1102, 1077, 1088, 1091, 32, 1074, 1089, 1105, 32, 1087, 1086,
        1085, 1088, 1072, 1074, 1080, 1083, 1086, 1089, 1100, 46, 32, 1059, 1088, 1072, 33]"
    by (simp add: parse_status_def verdict_def ascii_def HOMEWORK_VERDICTS_def format_value_def
        status_changed_text_def)
qed

text \<open>The record \<open>hw2\<close> with the status \<open>rejected\<close>.\<close>

theorem parse_status_verdict_witness:
  "map_of [(ascii ''homework_name'', JStr (ascii ''hw2'')), (ascii ''status'', JStr (ascii ''rejected''))]
     (ascii ''homework_name'') = Some (JStr (ascii ''hw2''))
   \<and> map_of [(ascii ''homework_name'', JStr (ascii ''hw2'')), (ascii ''status'', JStr (ascii ''rejected''))]
     (ascii ''status'') = Some (JStr (ascii ''rejected''))
   \<and> map_of HOMEWORK_VERDICTS (ascii ''rejected'') = Some (snd (HOMEWORK_VERDICTS ! 2))
   \<and> parse_status example_runtime hw2
     = Inr (status_changed_text @ ascii ''hw2'' @ 34 # ascii ''. '' @ snd (HOMEWORK_VERDICTS ! 2))"
  using parse_status_verdict
    [of "[(ascii ''homework_name'', JStr (ascii ''hw2'')), (ascii ''status'', JStr (ascii ''rejected''))]"
        "JStr (ascii ''hw2'')" "ascii ''rejected''" "snd (HOMEWORK_VERDICTS ! 2)" example_runtime]
  by (simp add: hw2_def ascii_def HOMEWORK_VERDICTS_def format_value_def)

text \<open>
  Claim C6. For a record with a name and a status, where the status is a string other
  than the three known ones, \<open>parse_status\<close> fails with the \<open>KeyError\<close> of line 146,
  whose arguments are the format string and the status (this is the error that the
  specification calls \<open>UnknownStatusError\<close>), and so returns no message; the same holds
  for an integer status, the other type that the annotation of \<open>parse_status\<close> allows.
  For a record without a name or without a status it fails with
  \<open>NoHomeworkDetectedError\<close>.
\<close>

theorem parse_status_failures:
  "(map_of d (ascii ''homework_name'') = Some name \<longrightarrow>
    map_of d (ascii ''status'') = Some (JStr s) \<longrightarrow>
    s \<notin> {ascii ''approved'', ascii ''reviewing'', ascii ''rejected''} \<longrightarrow>
    parse_status rt (JDict d) = Inl (Raised KeyError (Args [JStr no_status_text, JStr s])))
   \<and> (map_of d (ascii ''homework_name'') = Some name \<longrightarrow>
       map_of d (ascii ''status'') = Some (JInt i) \<longrightarrow>
       parse_status rt (JDict d) = Inl (Raised KeyError (Args [JStr no_status_text, JInt i])))
   \<and> (map_of d (ascii ''homework_name'') = None \<or> map_of d (ascii ''status'') = None \<longrightarrow>
        parse_status rt (JDict d) = Inl (Raised NoHomeworkDetectedError (Args [JStr no_homework_text])))"
  by (auto simp: parse_status_def verdict_def is_KeyError_def HOMEWORK_VERDICTS_def
           split: option.splits)

text \<open>The status \<open>archived\<close>, the status 7, and a record that has a name only.\<close>

theorem parse_status_failures_witness:
  "ascii ''archived'' \<notin> {ascii ''approved'', ascii ''reviewing'', ascii ''rejected''}
   \<and> parse_status example_runtime
     (JDict [(ascii ''homework_name'', JStr (ascii ''hw1'')), (ascii ''status'', JStr (ascii ''archived''))])
     = Inl (Raised KeyError (Args [JStr no_status_text, JStr (ascii ''archived'')]))
   \<and> parse_status example_runtime
     (JDict [(ascii ''homework_name'', JStr (ascii ''hw1'')), (ascii ''status'', JInt 7)])
     = Inl (Raised KeyError (Args [JStr no_status_text, JInt 7]))
   \<and> parse_status example_runtime (JDict [(ascii ''homework_name'', JStr (ascii ''hw1''))])
     = Inl (Raised NoHomeworkDetectedError (Args [JStr no_homework_text]))"
  using parse_status_failures
    [of "[(ascii ''homework_name'', JStr (ascii ''hw1'')), (ascii ''status'', JStr (ascii ''archived''))]"
        "JStr (ascii ''hw1'')" "ascii ''archived''" example_runtime]
    parse_status_failures
    [of "[(ascii ''homework_name'', JStr (ascii ''hw1'')), (ascii ''status'', JInt 7)]"
        "JStr (ascii ''hw1'')" _ example_runtime 7]
    parse_status_failures
    [of "[(ascii ''homework_name'', JStr (ascii ''hw1''))]" _ _ example_runtime]
  by (simp add: ascii_def)

section \<open>The poll loop\<close>

text \<open>
  When the answer has an empty \<open>homeworks\<close> list and a \<open>current_date\<close>, a pass sends
  nothing and moves the cursor to that value.
\<close>

lemma empty_homeworks_with_cursor:
  assumes "get_api_answer env (requests m) (timestamp m) = Inr (JDict d)"
      and "map_of d (ascii ''homeworks'') = Some (JList [])"
      and "map_of d (ascii ''current_date'') = Some v"
  shows "iteration rt env m = (Continue, sleep (m\<lparr>requests := Suc (requests m), timestamp := v\<rparr>))"
proof -
  have "check_response (JDict d) = Inr []"
    using assms(2) by (simp add: truthy_str_def ascii_def)
  then show ?thesis
    using assms by (simp add: iteration_def try_body_fetched notify_first_def)
qed

text \<open>
  Claim C7: in a pass whose response passes \<open>check_response\<close> with an empty \<open>homeworks\<close>
  list and has the value \<open>v\<close> under \<open>current_date\<close>, no text is passed to the bot, so
  none is sent, the loop goes on, and the cursor after the pass is \<open>v\<close>.
\<close>

theorem empty_homeworks_advance_cursor:
  assumes "get_api_answer env (requests m) (timestamp m) = Inr response"
      and "check_response response = Inr []"
      and "subscript response (ascii ''current_date'') = Inr v"
  shows "fst (iteration rt env m) = Continue
       \<and> attempted (snd (iteration rt env m)) = attempted m
       \<and> sent (snd (iteration rt env m)) = sent m
       \<and> timestamp (snd (iteration rt env m)) = v"
proof -
  obtain d where d: "response = JDict d" "map_of d (ascii ''homeworks'') = Some (JList [])"
    using assms(2) check_response_iff [of response "[]"] by auto
  have "map_of d (ascii ''current_date'') = Some v"
    using assms(3) d(1) by (simp split: option.splits)
  then have "iteration rt env m = (Continue, sleep (m\<lparr>requests := Suc (requests m), timestamp := v\<rparr>))"
    using assms(1) d by (simp add: empty_homeworks_with_cursor)
  then show ?thesis
    by (simp add: sleep_def)
qed

text \<open>The answer \<open>{"homeworks": [], "current_date": 1700000100}\<close> on the first pass.\<close>

theorem empty_homeworks_advance_cursor_witness:
  "get_api_answer
     (example_environment
        (ok_response (JDict [(ascii ''homeworks'', JList []), (ascii ''current_date'', JInt 1700000100)]))
        None)
     (requests (initial 1700000000)) (timestamp (initial 1700000000))
     = Inr (JDict [(ascii ''homeworks'', JList []), (ascii ''current_date'', JInt 1700000100)])
   \<and> check_response (JDict [(ascii ''homeworks'', JList []), (ascii ''current_date'', JInt 1700000100)])
     = Inr []
   \<and> subscript (JDict [(ascii ''homeworks'', JList []), (ascii ''current_date'', JInt 1700000100)])
       (ascii ''current_date'') = Inr (JInt 1700000100)
   \<and> sent (snd (iteration example_runtime
        (example_environment
           (ok_response (JDict [(ascii ''homeworks'', JList []), (ascii ''current_date'', JInt 1700000100)]))
           None)
        (initial 1700000000))) = []
   \<and> timestamp (snd (iteration example_runtime
        (example_environment
           (ok_response (JDict [(ascii ''homeworks'', JList []), (ascii ''current_date'', JInt 1700000100)]))
           None)
        (initial 1700000000))) = JInt 1700000100"
proof -
  let ?r = "JDict [(ascii ''homeworks'', JList []), (ascii ''current_date'', JInt 1700000100)]"
  have api: "get_api_answer (example_environment (ok_response ?r) None)
               (requests (initial 1700000000)) (timestamp (initial 1700000000)) = Inr ?r"
    by (simp add: get_api_answer_def example_environment_def ok_response_def)
  have chk: "check_response ?r = Inr []"
    by (simp add: truthy_str_def ascii_def)
  have cur: "subscript ?r (ascii ''current_date'') = Inr (JInt 1700000100)"
    by (simp add: ascii_def)
  show ?thesis
    using api chk cur empty_homeworks_advance_cursor [OF api chk cur, of example_runtime]
    by (simp add: initial_def)
qed

text \<open>
  The validator also accepts the answer \<open>{"homeworks": []}\<close>; line 164 then raises
  \<open>KeyError('current_date')\<close>, the handler sends a failure text, and the cursor keeps
  the value it had.
\<close>

lemma empty_homeworks_without_cursor:
  "iteration rt
     (example_environment (ok_response (JDict [(ascii ''homeworks'', JList [])])) None) (initial now)
   = (Continue,
      \<lparr>timestamp = JInt now,
       error_message = ExcObject 0 KeyError (Args [JStr (ascii ''current_date'')]),
       attempted = [failure_text @ str_error rt KeyError (Args [JStr (ascii ''current_date'')])],
       sent = [failure_text @ str_error rt KeyError (Args [JStr (ascii ''current_date'')])],
       requests = 1, caught = 1, slept = 600\<rparr>)"
  by (simp add: run_defs ascii_def)

text \<open>
  Claim C8: in a pass whose validated response holds at least one record, the only text
  that the \<open>try\<close> block passes to the bot is the translation of the first record (none
  when that translation fails), and the records after the first have no influence on
  the pass: two answers with the same first record and the same \<open>current_date\<close> lead to
  the same state, the same texts sent and the same outcome.
\<close>

theorem only_first_homework:
  assumes "get_api_answer env (requests m) (timestamp m) = Inr response"
      and "check_response response = Inr (homework # others)"
  shows "attempted (snd (try_body rt env m)) =
           attempted m @ (case parse_status rt homework of Inl e \<Rightarrow> [] | Inr text \<Rightarrow> [text])
       \<and> (\<forall>env' response' others'.
            get_api_answer env' (requests m) (timestamp m) = Inr response' \<longrightarrow>
            check_response response' = Inr (homework # others') \<longrightarrow>
            subscript response' (ascii ''current_date'') = subscript response (ascii ''current_date'') \<longrightarrow>
            bot_send_message env' = bot_send_message env \<longrightarrow>
            iteration rt env' m = iteration rt env m)"
proof (intro conjI allI impI)
  let ?m1 = "m\<lparr>requests := Suc (requests m)\<rparr>"
  have "attempted (snd (try_body rt env m)) = attempted (snd (notify_first rt env (homework # others) ?m1))"
    unfolding try_body_fetched [OF assms]
    by (auto split: prod.splits option.splits sum.splits)
  then show "attempted (snd (try_body rt env m)) =
           attempted m @ (case parse_status rt homework of Inl e \<Rightarrow> [] | Inr text \<Rightarrow> [text])"
    by (simp add: notify_first_attempted)
next
  fix env' response' others'
  assume api: "get_api_answer env' (requests m) (timestamp m) = Inr response'"
     and chk: "check_response response' = Inr (homework # others')"
     and cur: "subscript response' (ascii ''current_date'') = subscript response (ascii ''current_date'')"
     and bot: "bot_send_message env' = bot_send_message env"
  have "try_body rt env' m = try_body rt env m"
    unfolding try_body_fetched [OF assms] try_body_fetched [OF api chk]
      notify_first_head [OF bot, of rt homework others' _ others] cur ..
  then show "iteration rt env' m = iteration rt env m"
    unfolding iteration_def handler_bot [OF bot] by simp
qed

text \<open>
  The answer holds \<open>hw1\<close> (approved) and then \<open>hw2\<close> (rejected): the one text sent is
  the translation of \<open>hw1\<close>, and the pass is the one of the answer that holds \<open>hw1\<close> only.
\<close>

theorem only_first_homework_witness:
  "get_api_answer
     (example_environment
        (ok_response (JDict [(ascii ''homeworks'', JList [hw1, hw2]), (ascii ''current_date'', JInt 1700000100)]))
        None)
     (requests (initial 0)) (timestamp (initial 0))
     = Inr (JDict [(ascii ''homeworks'', JList [hw1, hw2]), (ascii ''current_date'', JInt 1700000100)])
   \<and> check_response (JDict [(ascii ''homeworks'', JList [hw1, hw2]), (ascii ''current_date'', JInt 1700000100)])
     = Inr [hw1, hw2]
   \<and> attempted (snd (try_body example_runtime
        (example_environment
           (ok_response (JDict [(ascii ''homeworks'', JList [hw1, hw2]), (ascii ''current_date'', JInt 1700000100)]))
           None)
        (initial 0)))
     = [status_changed_text @ ascii ''hw1'' @ 34 # ascii ''. '' @ snd (HOMEWORK_VERDICTS ! 0)]
   \<and> iteration example_runtime
        (example_environment
           (ok_response (JDict [(ascii ''homeworks'', JList [hw1]), (ascii ''current_date'', JInt 1700000100)]))
           None)
        (initial 0)
     = iteration example_runtime
        (example_environment
           (ok_response (JDict [(ascii ''homeworks'', JList [hw1, hw2]), (ascii ''current_date'', JInt 1700000100)]))
           None)
        (initial 0)"
proof -
  let ?r = "JDict [(ascii ''homeworks'', JList [hw1, hw2]), (ascii ''current_date'', JInt 1700000100)]"
  let ?r' = "JDict [(ascii ''homeworks'', JList [hw1]), (ascii ''current_date'', JInt 1700000100)]"
  have api: "get_api_answer (example_environment (ok_response ?r) None)
               (requests (initial 0)) (timestamp (initial 0)) = Inr ?r"
    by (simp add: get_api_answer_def example_environment_def ok_response_def)
  have chk: "check_response ?r = Inr [hw1, hw2]"
    by (simp add: truthy_str_def ascii_def)
  have api': "get_api_answer (example_environment (ok_response ?r') None)
               (requests (initial 0)) (timestamp (initial 0)) = Inr ?r'"
    by (simp add: get_api_answer_def example_environment_def ok_response_def)
  have chk': "check_response ?r' = Inr [hw1]"
    by (simp add: truthy_str_def ascii_def)
  have cur: "subscript ?r' (ascii ''current_date'') = subscript ?r (ascii ''current_date'')"
    by (simp add: ascii_def)
  have bot: "bot_send_message (example_environment (ok_response ?r') None)
               = bot_send_message (example_environment (ok_response ?r) None)"
    by (simp add: example_environment_def)
  have first: "parse_status example_runtime hw1
                 = Inr (status_changed_text @ ascii ''hw1'' @ 34 # ascii ''. '' @ snd (HOMEWORK_VERDICTS ! 0))"
    by (simp add: hw1_def parse_status_def verdict_def ascii_def HOMEWORK_VERDICTS_def format_value_def)
  note main = only_first_homework [OF api chk, of example_runtime]
  have sent_first: "attempted (snd (try_body example_runtime (example_environment (ok_response ?r) None) (initial 0)))
     = [status_changed_text @ ascii ''hw1'' @ 34 # ascii ''. '' @ snd (HOMEWORK_VERDICTS ! 0)]"
    using main first by (simp add: initial_def)
  have same: "iteration example_runtime (example_environment (ok_response ?r') None) (initial 0)
     = iteration example_runtime (example_environment (ok_response ?r) None) (initial 0)"
    using main api' chk' cur bot by blast
  show ?thesis
    using api chk sent_first same by simp
qed

section \<open>get_api_answer\<close>

text \<open>
  Claim C9: when \<open>requests.get\<close> itself raises a \<open>RequestException\<close> (a transport
  failure), \<open>get_api_answer\<close> fails with \<open>UnboundLocalError\<close> for the variable
  \<open>response\<close>, and so not with the \<open>RequestException\<close> that line 94 set out to raise.
\<close>

theorem get_api_answer_unbound_response:
  assumes "requests_get env k from_date = Inl (Raised c a)"
      and "is_RequestException c"
  shows "get_api_answer env k from_date = Inl (Raised UnboundLocalError (Unbound (ascii ''response'')))
       \<and> (\<forall>a'. get_api_answer env k from_date \<noteq> Inl (Raised RequestException a'))"
  using assms by (simp add: get_api_answer_def)

text \<open>A refused connection on the first request.\<close>

theorem get_api_answer_unbound_response_witness:
  "requests_get
     (example_environment (Inl (Raised (RequestExceptionSubclass (ascii ''ConnectionError'')) (Args []))) None)
     0 (JInt 0)
     = Inl (Raised (RequestExceptionSubclass (ascii ''ConnectionError'')) (Args []))
   \<and> is_RequestException (RequestExceptionSubclass (ascii ''ConnectionError''))
   \<and> get_api_answer
       (example_environment (Inl (Raised (RequestExceptionSubclass (ascii ''ConnectionError'')) (Args []))) None)
       0 (JInt 0)
     = Inl (Raised UnboundLocalError (Unbound (ascii ''response'')))"
proof -
  have raises: "requests_get
     (example_environment (Inl (Raised (RequestExceptionSubclass (ascii ''ConnectionError'')) (Args []))) None)
     0 (JInt 0)
     = Inl (Raised (RequestExceptionSubclass (ascii ''ConnectionError'')) (Args []))"
    by (simp add: example_environment_def)
  have sub: "is_RequestException (RequestExceptionSubclass (ascii ''ConnectionError''))"
    by simp
  show ?thesis
    using raises sub get_api_answer_unbound_response [OF raises sub] by simp
qed

section \<open>The cursor on error\<close>

text \<open>Each step of the \<open>try\<close> block that raises makes the block raise.\<close>

lemma try_body_fetch_raises:
  "get_api_answer env (requests m) (timestamp m) = Inl e \<Longrightarrow> fst (try_body rt env m) = Some e"
  by (simp add: try_body_def Let_def)

lemma try_body_validation_raises:
  "get_api_answer env (requests m) (timestamp m) = Inr response \<Longrightarrow>
   check_response response = Inl e \<Longrightarrow> fst (try_body rt env m) = Some e"
  by (simp add: try_body_def Let_def)

lemma try_body_translation_raises:
  "get_api_answer env (requests m) (timestamp m) = Inr response \<Longrightarrow>
   check_response response = Inr (homework # others) \<Longrightarrow>
   parse_status rt homework = Inl e \<Longrightarrow> fst (try_body rt env m) = Some e"
  by (simp add: try_body_fetched notify_first_def)

lemma try_body_send_raises:
  "get_api_answer env (requests m) (timestamp m) = Inr response \<Longrightarrow>
   check_response response = Inr (homework # others) \<Longrightarrow>
   parse_status rt homework = Inr text \<Longrightarrow>
   fst (send_message env text (m\<lparr>requests := Suc (requests m)\<rparr>)) = Some e \<Longrightarrow>
   fst (try_body rt env m) = Some e"
  by (cases "send_message env text (m\<lparr>requests := Suc (requests m)\<rparr>)")
     (simp add: try_body_fetched notify_first_def)


text \<open>
  Claim C10: when a statement of the \<open>try\<close> block raises (the fetch, the validation,
  the translation, the send, or the read of \<open>current_date\<close>), the cursor after the pass
  is the cursor before it, whether the handler returns or raises.
\<close>

theorem cursor_kept_on_error:
  assumes "try_body rt env m = (Some e, m')"
  shows "timestamp (snd (iteration rt env m)) = timestamp m"
proof -
  have "timestamp (snd (handler rt env e m')) = timestamp m"
    using handler_timestamp try_body_raises_timestamp [OF assms] by simp
  then show ?thesis
    using assms by (auto simp: iteration_def sleep_def split: prod.splits option.splits)
qed

text \<open>The first pass on the answer \<open>[]\<close>, from the cursor 1700000000.\<close>

theorem cursor_kept_on_error_witness:
  "try_body example_runtime (example_environment (ok_response (JList [])) None) (initial 1700000000)
     = (Some (Raised TypeError (Args [JStr bad_structure_text])), (initial 1700000000)\<lparr>requests := 1\<rparr>)
   \<and> timestamp (snd (iteration example_runtime (example_environment (ok_response (JList [])) None)
        (initial 1700000000))) = JInt 1700000000"
proof -
  have body: "try_body example_runtime (example_environment (ok_response (JList [])) None) (initial 1700000000)
     = (Some (Raised TypeError (Args [JStr bad_structure_text])), (initial 1700000000)\<lparr>requests := 1\<rparr>)"
    by (simp add: run_defs)
  show ?thesis
    using body cursor_kept_on_error [OF body] by (simp add: initial_def)
qed

end
